theory Spec2Isabelle
  imports Complex_Main "HOL-Library.Word"
begin

unbundle bit_operations_syntax

section \<open>Machine types\<close>

text \<open>
  The integer types of \<^verbatim>\<open>ultratypes.h\<close> are words of their width; \<^verbatim>\<open>s8\<close> and \<^verbatim>\<open>s16\<close>
  values are read with \<open>sint\<close>, \<^verbatim>\<open>u8\<close> values with \<open>uint\<close>. Where C promotes to
  \<^verbatim>\<open>int\<close> before computing, the model computes on \<open>int\<close>.
\<close>

type_synonym u8 = "8 word"
type_synonym s8 = "8 word"
type_synonym s16 = "16 word"
type_synonym Angle = s16
type_synonym Alpha = u8

text \<open>
  An \<^verbatim>\<open>f32\<close> is modelled by the real number it denotes (infinities and NaN are not
  values of the model).
\<close>

type_synonym f32 = real
type_synonym Vec3f = "f32 \<times> f32 \<times> f32"

text \<open>
  What the platform and the headers fix, none of it among the sources, so each is a
  parameter:
  \<^item> \<open>f32_round\<close>, the rounding of \<^verbatim>\<open>f32\<close> arithmetic: every floating-point operation is
    the exact operation followed by it;
  \<^item> \<open>cvt_u8\<close>, \<open>cvt_s16\<close> and \<open>cvt_s32\<close>, what a conversion from \<^verbatim>\<open>f32\<close> stores where C
    leaves it undefined (C11 6.3.1.4: the integral part does not fit the type; \<open>None\<close> is
    an infinity or a NaN);
  \<^item> the functions of \<^verbatim>\<open>math_util.h\<close> and \<^verbatim>\<open>libm\<close>;
  \<^item> the macros \<^verbatim>\<open>FLT_IS_NONZERO\<close> and \<^verbatim>\<open>FLOOR_LOWER_LIMIT_MISC\<close>, and whether
    \<^verbatim>\<open>HD_SHADOWS\<close> is defined;
  \<^item> the values of \<^verbatim>\<open>enum ShadowType\<close> in \<^verbatim>\<open>shadow.h\<close>.
\<close>

record Platform =
  f32_round :: "real \<Rightarrow> real"
  cvt_u8 :: "f32 option \<Rightarrow> u8"
  cvt_s16 :: "f32 \<Rightarrow> s16"
  cvt_s32 :: "f32 \<Rightarrow> int"
  sins :: "s16 \<Rightarrow> f32"
  coss :: "s16 \<Rightarrow> f32"
  atan2s :: "f32 \<Rightarrow> f32 \<Rightarrow> s16"
  sqrtf :: "f32 \<Rightarrow> f32"
  roundf :: "f32 \<Rightarrow> f32"
  FLT_IS_NONZERO :: "f32 \<Rightarrow> bool"
  FLOOR_LOWER_LIMIT_MISC :: f32
  HD_SHADOWS :: bool
  SHADOW_CIRCLE_PLAYER :: int
  SHADOW_CIRCLE :: int
  SHADOW_SQUARE_PERMANENT :: int
  SHADOW_SQUARE_SCALABLE :: int
  SHADOW_SQUARE_TOGGLABLE :: int
  SHADOW_RECTANGLE_HARDCODED_OFFSET :: int


definition fadd :: "Platform \<Rightarrow> f32 \<Rightarrow> f32 \<Rightarrow> f32" where
  "fadd P a b = f32_round P (a + b)"

definition fsub :: "Platform \<Rightarrow> f32 \<Rightarrow> f32 \<Rightarrow> f32" where
  "fsub P a b = f32_round P (a - b)"

definition fmul :: "Platform \<Rightarrow> f32 \<Rightarrow> f32 \<Rightarrow> f32" where
  "fmul P a b = f32_round P (a * b)"

text \<open>Division by a constant that is not zero.\<close>

definition fdiv :: "Platform \<Rightarrow> f32 \<Rightarrow> f32 \<Rightarrow> f32" where
  "fdiv P a b = f32_round P (a / b)"

text \<open>
  Division by a divisor the code does not check: dividing by zero gives an infinity or a
  NaN, which is \<open>None\<close> here.
\<close>

definition fdiv0 :: "Platform \<Rightarrow> f32 \<Rightarrow> f32 \<Rightarrow> f32 option" where
  "fdiv0 P a b = (if b = 0 then None else Some (f32_round P (a / b)))"

text \<open>
  Converting an \<^verbatim>\<open>f32\<close> to an integer type discards the fraction where the integral part
  fits the type.
\<close>

definition c_trunc :: "real \<Rightarrow> int" where
  "c_trunc x = (if 0 \<le> x then \<lfloor>x\<rfloor> else \<lceil>x\<rceil>)"

definition f32_to_s32 :: "Platform \<Rightarrow> f32 \<Rightarrow> int" where
  "f32_to_s32 P x =
     (if - 2147483649 < x \<and> x < 2147483648 then c_trunc x else cvt_s32 P x)"

definition f32_to_s16 :: "Platform \<Rightarrow> f32 \<Rightarrow> s16" where
  "f32_to_s16 P x =
     (if - 32769 < x \<and> x < 32768 then word_of_int (c_trunc x) else cvt_s16 P x)"

definition f32_to_u8 :: "Platform \<Rightarrow> f32 option \<Rightarrow> u8" where
  "f32_to_u8 P v =
     (case v of
        None \<Rightarrow> cvt_u8 P None
      | Some x \<Rightarrow> if - 1 < x \<and> x < 256 then word_of_int (c_trunc x) else cvt_u8 P v)"

text \<open>The undefined behaviours that end a run of the model.\<close>

datatype ub = NullDeref | OutOfBounds

section \<open>Data of the shadow subsystem\<close>

text \<open>
  Modelled from the spec: the surface types of \<^verbatim>\<open>surface_terrains.h\<close>, the level numbers
  of \<^verbatim>\<open>level_table.h\<close>, the flying carpet states and the animation ids are not among the
  sources. The code only compares them with the constants below, so each is a datatype
  with those constants and one constructor for every other value.
\<close>

datatype SurfaceType =
  SURFACE_ICE | SURFACE_BURNING | SURFACE_DEATH_PLANE | SURFACE_OTHER nat

datatype LevelNum = LEVEL_BITFS | LEVEL_LLL | LEVEL_RR | LEVEL_OTHER nat

datatype FlyingCarpetState =
  FLYING_CARPET_MOVING_WITHOUT_MARIO | FLYING_CARPET_MOVING_WITH_MARIO | FLYING_CARPET_OTHER nat

datatype MarioAnim =
  MARIO_ANIM_IDLE_ON_LEDGE | MARIO_ANIM_FAST_LEDGE_GRAB | MARIO_ANIM_SLOW_LEDGE_GRAB
  | MARIO_ANIM_CLIMB_DOWN_LEDGE | MARIO_ANIM_OTHER nat

record Surface =
  surface_type :: SurfaceType
  normal :: Vec3f

text \<open>\<^verbatim>\<open>struct Shadow\<close>; a pointer to a surface is \<open>None\<close> when it is \<^verbatim>\<open>NULL\<close>.\<close>

record Shadow =
  parentPos :: Vec3f
  floorHeight :: f32
  shadowScale :: f32
  floor_surface :: "Surface option"
  floorPitch :: Angle
  floorYaw :: Angle
  solidity :: Alpha

datatype ShadowSolidity =
  SHADOW_SOLIDITY_NO_SHADOW | SHADOW_SOILDITY_ALREADY_SET | SHADOW_SOLIDITY_NOT_YET_SET

datatype ShadowShapes = SHADOW_SHAPE_CIRCLE | SHADOW_SHAPE_SQUARE

record shadowRectangle =
  halfWidth :: f32
  halfLength :: f32
  scaleWithDistance :: bool

definition rectangles :: "shadowRectangle list" where
  "rectangles =
     [\<lparr>halfWidth = 360, halfLength = 230, scaleWithDistance = True\<rparr>,
      \<lparr>halfWidth = 200, halfLength = 180, scaleWithDistance = True\<rparr>]"

text \<open>
  Modelled from the spec: the flag masks of \<^verbatim>\<open>shadow.h\<close> are not among the sources. The
  spec (3, ShadowFlags) gives a bitset of four independent flags, so \<^verbatim>\<open>gShadowFlags\<close> is
  the set of the flags that are set: \<^verbatim>\<open>|=\<close> inserts, \<^verbatim>\<open>&= ~\<close> removes, \<^verbatim>\<open>&\<close> tests
  membership, and \<^verbatim>\<open>SHADOW_FLAGS_NONE\<close> is the empty set.
\<close>

datatype ShadowFlag =
  SHADOW_FLAG_WATER_BOX | SHADOW_FLAG_WATER_SURFACE | SHADOW_FLAG_ICE_CARPET | SHADOW_FLAG_RAISED

datatype CollisionFlag = COLLISION_FLAG_RETURN_FIRST | COLLISION_FLAG_OTHER nat

text \<open>The globals that \<^verbatim>\<open>shadow.c\<close> writes.\<close>

record globals =
  gCurrShadow :: Shadow
  gShadowFlags :: "ShadowFlag set"
  gCollisionFlags :: "CollisionFlag set"

text \<open>
  What the rest of the game provides during one build and \<^verbatim>\<open>shadow.c\<close> only reads: the
  collision and water queries, the level, Mario's animation and floor, the object of the
  current graph node, and whether each of the two calls of \<^verbatim>\<open>alloc_display_list\<close>
  returns a buffer.
\<close>

record World =
  find_floor :: "f32 \<Rightarrow> f32 \<Rightarrow> f32 \<Rightarrow> f32 \<times> Surface option"
  find_water_level :: "f32 \<Rightarrow> f32 \<Rightarrow> f32"
  find_water_level_and_floor :: "f32 \<Rightarrow> f32 \<Rightarrow> f32 \<times> Surface option"
  get_surface_height_at_location :: "f32 \<Rightarrow> f32 \<Rightarrow> Surface \<Rightarrow> f32"
  alloc_verts :: bool
  alloc_displayList :: bool
  gCurrLevelNum :: LevelNum
  gCurrAreaIndex :: int
  gFlyingCarpetState :: FlyingCarpetState
  marioAnimID :: MarioAnim
  marioAnimFrame :: s16
  marioFloor :: "Surface option"
  marioFloorHeight :: f32
  curNodeIsMario :: bool
  curNodeIsMirrorMario :: bool
  oFloor :: "Surface option"
  oFloorHeight :: f32
  oFaceAngleYaw :: s16

text \<open>
  A vertex as \<^verbatim>\<open>make_vertex\<close> receives it, and the display list: the commands that
  \<^verbatim>\<open>add_shadow_to_display_list\<close> writes, with the vertex buffer that \<^verbatim>\<open>gSPVertex\<close> loads.
\<close>

record Vtx =
  vtx_x :: f32
  vtx_y :: s16
  vtx_z :: f32
  vtx_tx :: int
  vtx_ty :: int
  vtx_r :: int
  vtx_g :: int
  vtx_b :: int
  vtx_a :: u8

datatype Gfx =
  dl_shadow_circle | dl_shadow_square | gSPVertex "Vtx option list" | dl_shadow_end
  | gSPEndDisplayList

section \<open>Distance attenuation\<close>

definition scale_shadow_with_distance :: "Platform \<Rightarrow> f32 \<Rightarrow> f32 \<Rightarrow> f32" where
  "scale_shadow_with_distance P initial distFromFloor =
     (if distFromFloor \<le> 0 then initial
      else if distFromFloor \<ge> 600 then fmul P initial (1 / 2)
      else fmul P initial (fsub P 1 (fdiv P (fmul P distFromFloor (1 / 2)) 600)))"

text \<open>The result is an \<^verbatim>\<open>s32\<close>: the last branch converts the \<^verbatim>\<open>f32\<close> sum.\<close>

definition dim_shadow_with_distance :: "Platform \<Rightarrow> u8 \<Rightarrow> f32 \<Rightarrow> int" where
  "dim_shadow_with_distance P solidityArg distFromFloor =
     (if uint solidityArg < 121 then uint solidityArg
      else if distFromFloor \<le> 0 then uint solidityArg
      else if distFromFloor \<ge> 600 then 120
      else f32_to_s32 P
             (fadd P (fdiv P (fmul P (of_int (120 - uint solidityArg)) distFromFloor) 600)
                (of_int (uint solidityArg))))"

section \<open>Floor, water and lava\<close>

text \<open>
  Returns the water level, the water floor that \<^verbatim>\<open>find_water_level_and_floor\<close> stored
  (\<open>None\<close> when it left the pointer \<^verbatim>\<open>NULL\<close>) and the globals.
\<close>

definition get_water_level_below_shadow ::
  "Platform \<Rightarrow> World \<Rightarrow> globals \<Rightarrow> f32 \<times> Surface option \<times> globals" where
  "get_water_level_below_shadow P W g =
     (let s = gCurrShadow g;
          (x, y, z) = parentPos s;
          (waterLevel, waterFloor) = find_water_level_and_floor W x z
      in if waterLevel < FLOOR_LOWER_LIMIT_MISC P
         then (FLOOR_LOWER_LIMIT_MISC P, waterFloor, g)
         else if y \<ge> waterLevel \<and> floorHeight s \<le> waterLevel
         then (waterLevel, waterFloor,
               g\<lparr>gShadowFlags := gShadowFlags g \<union> {SHADOW_FLAG_WATER_BOX}\<rparr>)
         else (waterLevel, waterFloor, g))"

text \<open>
  The condition under which \<^verbatim>\<open>get_water_level_below_shadow\<close> sets the water-box flag,
  for a parent at \<open>(xPos, yPos, zPos)\<close> and the floor height \<open>fh\<close>: there is water (its
  level is not below the lower limit), the parent is at or above it and the floor is at or
  below it.
\<close>

definition water_box_condition :: "Platform \<Rightarrow> World \<Rightarrow> f32 \<Rightarrow> f32 \<Rightarrow> f32 \<Rightarrow> f32 \<Rightarrow> bool" where
  "water_box_condition P W xPos yPos zPos fh =
     (let waterLevel = fst (find_water_level_and_floor W xPos zPos)
      in FLOOR_LOWER_LIMIT_MISC P \<le> waterLevel \<and> waterLevel \<le> yPos \<and> fh \<le> waterLevel)"

text \<open>
  \<^verbatim>\<open>init_shadow\<close>, lines 162 to 198: the position, the water query, the floor normal and
  the water-box branch. The result is \<open>None\<close> with the globals where the code returns
  \<^verbatim>\<open>TRUE\<close>, and the normal \<^verbatim>\<open>n\<close> with the globals where it goes on. \<^verbatim>\<open>FLOAT_ONE\<close>, not
  among the sources, is the bit pattern of \<^verbatim>\<open>1.0f\<close>.
\<close>

definition init_shadow_resolve ::
  "Platform \<Rightarrow> World \<Rightarrow> f32 \<Rightarrow> f32 \<Rightarrow> f32 \<Rightarrow> globals \<Rightarrow> ub + (Vec3f option \<times> globals)" where
  "init_shadow_resolve P W xPos yPos zPos g =
     (let g1 = g\<lparr>gCurrShadow := (gCurrShadow g)\<lparr>parentPos := (xPos, yPos, zPos)\<rparr>\<rparr>;
          (waterLevel, waterFloor, g2) = get_water_level_below_shadow P W g1;
          s = gCurrShadow g2
      in case floor_surface s of
           None \<Rightarrow> Inl NullDeref
         | Some fl \<Rightarrow>
             let n = normal fl in
             if SHADOW_FLAG_WATER_BOX \<in> gShadowFlags g2 then
               let s1 = s\<lparr>floorHeight := waterLevel\<rparr> in
               (case waterFloor of
                  Some waterSurface \<Rightarrow>
                    Inr (Some n,
                         g2\<lparr>gCurrShadow := s1\<lparr>floor_surface := Some waterSurface, solidity := 200\<rparr>,
                            gShadowFlags := (gShadowFlags g2 - {SHADOW_FLAG_WATER_BOX})
                                              \<union> {SHADOW_FLAG_WATER_SURFACE}\<rparr>)
                | None \<Rightarrow>
                    Inr (Some (0, 1, 0),
                         g2\<lparr>gCurrShadow := s1,
                            gShadowFlags := gShadowFlags g2 - {SHADOW_FLAG_WATER_SURFACE}\<rparr>))
             else if fst (snd n) \<le> 0 \<or> floorHeight s < FLOOR_LOWER_LIMIT_MISC P
             then Inr (None, g2)
             else Inr (Some n, g2))"

text \<open>
  \<^verbatim>\<open>init_shadow\<close>, lines 200 to 217: solidity, scale, pitch and yaw. The \<^verbatim>\<open>s32\<close> that
  \<^verbatim>\<open>dim_shadow_with_distance\<close> returns is narrowed to the \<^verbatim>\<open>u8\<close> field.
\<close>

definition init_shadow_finish ::
  "Platform \<Rightarrow> f32 \<Rightarrow> s16 \<Rightarrow> u8 \<Rightarrow> Vec3f \<Rightarrow> globals \<Rightarrow> globals" where
  "init_shadow_finish P yPos shadowScaleArg overwriteSolidity n g =
     (let s = gCurrShadow g;
          dy = fsub P yPos (floorHeight s);
          s1 = (if overwriteSolidity \<noteq> 0
                then s\<lparr>solidity := word_of_int (dim_shadow_with_distance P overwriteSolidity dy)\<rparr>
                else s);
          s2 = s1\<lparr>shadowScale := scale_shadow_with_distance P (of_int (sint shadowScaleArg)) dy\<rparr>;
          (n0, n1, n2) = n;
          floorSteepness = fadd P (fmul P n0 n0) (fmul P n2 n2)
      in if FLT_IS_NONZERO P floorSteepness
         then g\<lparr>gCurrShadow := s2\<lparr>floorPitch := 16384 - atan2s P (sqrtf P floorSteepness) n1,
                                  floorYaw := atan2s P n2 n0\<rparr>\<rparr>
         else g\<lparr>gCurrShadow := s2\<lparr>floorPitch := 0, floorYaw := 0\<rparr>\<rparr>)"

text \<open>The first component is the value returned: \<open>True\<close> where no shadow is drawn.\<close>

definition init_shadow ::
  "Platform \<Rightarrow> World \<Rightarrow> f32 \<Rightarrow> f32 \<Rightarrow> f32 \<Rightarrow> s16 \<Rightarrow> u8 \<Rightarrow> globals \<Rightarrow> ub + (bool \<times> globals)" where
  "init_shadow P W xPos yPos zPos shadowScaleArg overwriteSolidity g =
     (case init_shadow_resolve P W xPos yPos zPos g of
        Inl e \<Rightarrow> Inl e
      | Inr (None, g1) \<Rightarrow> Inr (True, g1)
      | Inr (Some n, g1) \<Rightarrow>
          Inr (False, init_shadow_finish P yPos shadowScaleArg overwriteSolidity n g1))"

definition correct_lava_shadow_height :: "World \<Rightarrow> globals \<Rightarrow> ub + globals" where
  "correct_lava_shadow_height W g =
     (let s = gCurrShadow g in
      case floor_surface s of
        None \<Rightarrow> Inl NullDeref
      | Some fl \<Rightarrow>
          let tyoe = surface_type fl;
              water_box = gShadowFlags g \<union> {SHADOW_FLAG_WATER_BOX}
          in if gCurrLevelNum W = LEVEL_BITFS \<and> tyoe = SURFACE_BURNING then
               (if floorHeight s < - 3000
                then Inr (g\<lparr>gCurrShadow := s\<lparr>floorHeight := - 3062\<rparr>, gShadowFlags := water_box\<rparr>)
                else if floorHeight s > 3400
                then Inr (g\<lparr>gCurrShadow := s\<lparr>floorHeight := 3492\<rparr>, gShadowFlags := water_box\<rparr>)
                else Inr g)
             else if gCurrLevelNum W = LEVEL_LLL \<and> gCurrAreaIndex W = 1 \<and> tyoe = SURFACE_BURNING
             then Inr (g\<lparr>gCurrShadow := s\<lparr>floorHeight := 5\<rparr>, gShadowFlags := water_box\<rparr>)
             else Inr g)"

text \<open>
  The condition under which \<^verbatim>\<open>correct_lava_shadow_height\<close> sets the water-box flag: the
  floor of the workspace is a burning surface, in Bowser in the Fire Sea below \<open>-3000\<close> or
  above \<open>3400\<close>, or in the first area of Lethal Lava Land.
\<close>

definition lava_correction_applies :: "World \<Rightarrow> globals \<Rightarrow> bool" where
  "lava_correction_applies W g =
     (case floor_surface (gCurrShadow g) of
        None \<Rightarrow> False
      | Some fl \<Rightarrow>
          surface_type fl = SURFACE_BURNING
          \<and> (gCurrLevelNum W = LEVEL_BITFS
               \<and> (floorHeight (gCurrShadow g) < - 3000 \<or> floorHeight (gCurrShadow g) > 3400)
             \<or> gCurrLevelNum W = LEVEL_LLL \<and> gCurrAreaIndex W = 1))"

section \<open>Vertices\<close>

text \<open>
  The vertex number is the value of the \<^verbatim>\<open>s8\<close> argument; the results fit their \<^verbatim>\<open>s16\<close>
  and \<^verbatim>\<open>s8\<close> destinations for every such value. \<^verbatim>\<open>>>\<close> is the arithmetic shift.
\<close>

definition get_texture_coords :: "Platform \<Rightarrow> int \<Rightarrow> int \<times> int" where
  "get_texture_coords P vertexNum =
     (if HD_SHADOWS P
      then ((vertexNum AND 1) * 127 - 63, drop_bit 1 vertexNum * 127 - 63)
      else ((vertexNum AND 1) * 31 - 15, drop_bit 1 vertexNum * 31 - 15))"

definition get_vertex_coords :: "int \<Rightarrow> int \<times> int" where
  "get_vertex_coords index =
     (let xCoord = (index AND 1) - 1;
          zCoord = drop_bit 1 index - 1
      in (if xCoord = 0 then 1 else xCoord, if zCoord = 0 then 1 else zCoord))"

text \<open>
  Modelled from the spec: \<^verbatim>\<open>make_vertex\<close> of \<^verbatim>\<open>geo_misc.c\<close> is not among the sources. By
  the spec (4.5) it writes the vertex, with its position, texture coordinates, colour and
  alpha, at the index of the caller's buffer; a write outside the buffer is undefined.
\<close>

definition make_vertex ::
  "Vtx option list \<Rightarrow> int \<Rightarrow> f32 \<Rightarrow> s16 \<Rightarrow> f32 \<Rightarrow> int \<Rightarrow> int \<Rightarrow> int \<Rightarrow> int \<Rightarrow> int \<Rightarrow> u8
     \<Rightarrow> ub + Vtx option list" where
  "make_vertex vertices n x y z tx ty r g b a =
     (if 0 \<le> n \<and> n < int (length vertices)
      then Inr (vertices[nat n := Some \<lparr>vtx_x = x, vtx_y = y, vtx_z = z, vtx_tx = tx, vtx_ty = ty,
                                       vtx_r = r, vtx_g = g, vtx_b = b, vtx_a = a\<rparr>])
      else Inl OutOfBounds)"

text \<open>\<^verbatim>\<open><< 5\<close> on the promoted texture coordinate multiplies by 32.\<close>

definition make_shadow_vertex_at_xyz ::
  "Platform \<Rightarrow> globals \<Rightarrow> Vtx option list \<Rightarrow> int \<Rightarrow> f32 \<Rightarrow> f32 \<Rightarrow> f32 \<Rightarrow> u8
     \<Rightarrow> ub + Vtx option list" where
  "make_shadow_vertex_at_xyz P g vertices index relX relY relZ alpha =
     (let vtxY0 = f32_to_s16 P (roundf P relY);
          (textureX, textureY) = get_texture_coords P index;
          vtxY = (if SHADOW_FLAG_RAISED \<in> gShadowFlags g then vtxY0 + 5 else vtxY0)
      in make_vertex vertices index (roundf P relX) vtxY (roundf P relZ)
           (push_bit 5 textureX) (push_bit 5 textureY) 255 255 255 alpha)"

definition calculate_vertex_xyz :: "Platform \<Rightarrow> World \<Rightarrow> globals \<Rightarrow> int \<Rightarrow> ub + Vec3f" where
  "calculate_vertex_xyz P W g index =
     (let s = gCurrShadow g;
          tiltedScale = fmul P (coss P (floorPitch s)) (shadowScale s);
          downwardAngle = floorYaw s;
          (xCoordUnit, zCoordUnit) = get_vertex_coords index;
          halfScale = fdiv P (fmul P (of_int xCoordUnit) (shadowScale s)) 2;
          halfTiltedScale = fdiv P (fmul P (of_int zCoordUnit) tiltedScale) 2;
          sinYaw = sins P downwardAngle;
          cosYaw = coss P downwardAngle;
          (p0, p1, p2) = parentPos s;
          xPosVtx = fadd P (fadd P (fmul P halfTiltedScale sinYaw) (fmul P halfScale cosYaw)) p0;
          zPosVtx = fadd P (fsub P (fmul P halfTiltedScale cosYaw) (fmul P halfScale sinYaw)) p2
      in if SHADOW_FLAG_WATER_BOX \<in> gShadowFlags g
         then Inr (xPosVtx, floorHeight s, zPosVtx)
         else (case floor_surface s of
                 None \<Rightarrow> Inl NullDeref
               | Some fl \<Rightarrow>
                   Inr (xPosVtx, get_surface_height_at_location W xPosVtx zPosVtx fl, zPosVtx)))"

definition make_shadow_vertex ::
  "Platform \<Rightarrow> World \<Rightarrow> globals \<Rightarrow> Vtx option list \<Rightarrow> int \<Rightarrow> ub + Vtx option list" where
  "make_shadow_vertex P W g vertices index =
     (let s = gCurrShadow g;
          solidity0 = (if SHADOW_FLAG_WATER_BOX \<in> gShadowFlags g then 200 else solidity s)
      in case calculate_vertex_xyz P W g index of
           Inl e \<Rightarrow> Inl e
         | Inr (x, y, z) \<Rightarrow>
             let (p0, p1, p2) = parentPos s
             in make_shadow_vertex_at_xyz P g vertices index
                  (fsub P x p0) (fsub P y p1) (fsub P z p2) solidity0)"

text \<open>The loop \<^verbatim>\<open>for (i = 0; i < 4; i++) make_shadow_vertex(verts, i)\<close>, over \<open>[0, 1, 2, 3]\<close>.\<close>

fun make_shadow_vertices ::
  "Platform \<Rightarrow> World \<Rightarrow> globals \<Rightarrow> Vtx option list \<Rightarrow> int list \<Rightarrow> ub + Vtx option list" where
  "make_shadow_vertices P W g vertices [] = Inr vertices"
| "make_shadow_vertices P W g vertices (i # rest) =
     (case make_shadow_vertex P W g vertices i of
        Inl e \<Rightarrow> Inl e
      | Inr vertices' \<Rightarrow> make_shadow_vertices P W g vertices' rest)"

definition add_shadow_to_display_list :: "Vtx option list \<Rightarrow> ShadowShapes \<Rightarrow> Gfx list" where
  "add_shadow_to_display_list verts shadowShape =
     (case shadowShape of
        SHADOW_SHAPE_CIRCLE \<Rightarrow> [dl_shadow_circle]
      | SHADOW_SHAPE_SQUARE \<Rightarrow> [dl_shadow_square])
     @ [gSPVertex verts, dl_shadow_end, gSPEndDisplayList]"

section \<open>Animation\<close>

definition set_solidity :: "globals \<Rightarrow> u8 \<Rightarrow> globals" where
  "set_solidity g v = g\<lparr>gCurrShadow := (gCurrShadow g)\<lparr>solidity := v\<rparr>\<rparr>"

definition linearly_interpolate_solidity_positive ::
  "Platform \<Rightarrow> u8 \<Rightarrow> s16 \<Rightarrow> s16 \<Rightarrow> s16 \<Rightarrow> globals \<Rightarrow> globals" where
  "linearly_interpolate_solidity_positive P finalSolidity curr_frame start end_frame g =
     (if sint curr_frame \<ge> 0 \<and> sint curr_frame < sint start then set_solidity g 0
      else if sint end_frame < sint curr_frame then set_solidity g finalSolidity
      else set_solidity g
             (f32_to_u8 P
                (fdiv0 P
                   (fmul P (of_int (uint finalSolidity)) (of_int (sint curr_frame - sint start)))
                   (of_int (sint end_frame - sint start)))))"

definition linearly_interpolate_solidity_negative ::
  "Platform \<Rightarrow> u8 \<Rightarrow> s16 \<Rightarrow> s16 \<Rightarrow> s16 \<Rightarrow> globals \<Rightarrow> globals" where
  "linearly_interpolate_solidity_negative P initialSolidity curr_frame start end_frame g =
     (if sint curr_frame \<ge> sint start \<and> sint end_frame \<ge> sint curr_frame
      then set_solidity g
             (f32_to_u8 P
                (map_option (\<lambda>q. fmul P (of_int (uint initialSolidity)) (fsub P 1 q))
                   (fdiv0 P (of_int (sint curr_frame - sint start))
                      (of_int (sint end_frame - sint start)))))
      else set_solidity g 0)"

definition correct_shadow_solidity_for_animations ::
  "Platform \<Rightarrow> World \<Rightarrow> u8 \<Rightarrow> globals \<Rightarrow> ShadowSolidity \<times> globals" where
  "correct_shadow_solidity_for_animations P W initialSolidity g =
     (let animFrame = marioAnimFrame W in
      case marioAnimID W of
        MARIO_ANIM_IDLE_ON_LEDGE \<Rightarrow> (SHADOW_SOLIDITY_NO_SHADOW, g)
      | MARIO_ANIM_FAST_LEDGE_GRAB \<Rightarrow>
          (SHADOW_SOILDITY_ALREADY_SET,
           linearly_interpolate_solidity_positive P initialSolidity animFrame 5 14 g)
      | MARIO_ANIM_SLOW_LEDGE_GRAB \<Rightarrow>
          (SHADOW_SOILDITY_ALREADY_SET,
           linearly_interpolate_solidity_positive P initialSolidity animFrame 21 33 g)
      | MARIO_ANIM_CLIMB_DOWN_LEDGE \<Rightarrow>
          (SHADOW_SOILDITY_ALREADY_SET,
           linearly_interpolate_solidity_negative P initialSolidity animFrame 0 5 g)
      | MARIO_ANIM_OTHER k \<Rightarrow> (SHADOW_SOLIDITY_NOT_YET_SET, g))"

section \<open>Shadow strategies\<close>

text \<open>
  A strategy returns the display list, \<open>None\<close> for \<^verbatim>\<open>NULL\<close>, and the globals. The vertex
  buffer that \<^verbatim>\<open>alloc_display_list\<close> returns holds four vertices not yet written.
\<close>

text \<open>\<^verbatim>\<open>create_shadow_player\<close>, lines 425 to 435: the flying carpet of Rainbow Ride.\<close>

definition carpet_flags :: "World \<Rightarrow> globals \<Rightarrow> ub + globals" where
  "carpet_flags W g =
     (if gCurrLevelNum W = LEVEL_RR
      then (case floor_surface (gCurrShadow g) of
              None \<Rightarrow> Inl NullDeref
            | Some fl \<Rightarrow>
                if surface_type fl \<noteq> SURFACE_DEATH_PLANE
                then (case gFlyingCarpetState W of
                        FLYING_CARPET_MOVING_WITHOUT_MARIO \<Rightarrow>
                          Inr (g\<lparr>gShadowFlags := gShadowFlags g
                                   \<union> {SHADOW_FLAG_ICE_CARPET, SHADOW_FLAG_RAISED}\<rparr>)
                      | FLYING_CARPET_MOVING_WITH_MARIO \<Rightarrow>
                          Inr (g\<lparr>gShadowFlags := gShadowFlags g \<union> {SHADOW_FLAG_ICE_CARPET}\<rparr>)
                      | FLYING_CARPET_OTHER k \<Rightarrow> Inr g)
                else Inr g)
      else Inr g)"

text \<open>
  The end that \<^verbatim>\<open>create_shadow_player\<close> (lines 451 to 469, with the lava correction) and
  \<^verbatim>\<open>create_shadow_circle\<close> (lines 482 to 493, without it) share: the two buffers, the
  four vertices and the display list.
\<close>

definition circle_vertices ::
  "Platform \<Rightarrow> World \<Rightarrow> bool \<Rightarrow> globals \<Rightarrow> ub + (Gfx list option \<times> globals)" where
  "circle_vertices P W lava g =
     (if \<not> alloc_verts W \<or> \<not> alloc_displayList W then Inr (None, g)
      else
        case (if lava then correct_lava_shadow_height W g else Inr g) of
          Inl e \<Rightarrow> Inl e
        | Inr g1 \<Rightarrow>
            (case make_shadow_vertices P W g1 (replicate 4 None) [0, 1, 2, 3] of
               Inl e \<Rightarrow> Inl e
             | Inr verts \<Rightarrow>
                 Inr (Some (add_shadow_to_display_list verts SHADOW_SHAPE_CIRCLE), g1)))"

definition create_shadow_player ::
  "Platform \<Rightarrow> World \<Rightarrow> f32 \<Rightarrow> f32 \<Rightarrow> f32 \<Rightarrow> s16 \<Rightarrow> u8 \<Rightarrow> globals
     \<Rightarrow> ub + (Gfx list option \<times> globals)" where
  "create_shadow_player P W xPos yPos zPos shadowScaleArg solidityArg g =
     (case carpet_flags W g of
        Inl e \<Rightarrow> Inl e
      | Inr g1 \<Rightarrow>
          (case correct_shadow_solidity_for_animations P W solidityArg g1 of
             (SHADOW_SOLIDITY_NO_SHADOW, g2) \<Rightarrow> Inr (None, g2)
           | (SHADOW_SOILDITY_ALREADY_SET, g2) \<Rightarrow>
               (case init_shadow P W xPos yPos zPos shadowScaleArg 0 g2 of
                  Inl e \<Rightarrow> Inl e
                | Inr (noShadow, g3) \<Rightarrow>
                    if noShadow then Inr (None, g3) else circle_vertices P W True g3)
           | (SHADOW_SOLIDITY_NOT_YET_SET, g2) \<Rightarrow>
               (case init_shadow P W xPos yPos zPos shadowScaleArg solidityArg g2 of
                  Inl e \<Rightarrow> Inl e
                | Inr (noShadow, g3) \<Rightarrow>
                    if noShadow then Inr (None, g3) else circle_vertices P W True g3)))"

definition create_shadow_circle ::
  "Platform \<Rightarrow> World \<Rightarrow> f32 \<Rightarrow> f32 \<Rightarrow> f32 \<Rightarrow> s16 \<Rightarrow> u8 \<Rightarrow> globals
     \<Rightarrow> ub + (Gfx list option \<times> globals)" where
  "create_shadow_circle P W xPos yPos zPos shadowScaleArg solidityArg g =
     (case init_shadow P W xPos yPos zPos shadowScaleArg solidityArg g of
        Inl e \<Rightarrow> Inl e
      | Inr (noShadow, g1) \<Rightarrow>
          if noShadow then Inr (None, g1) else circle_vertices P W False g1)"

text \<open>The pair is \<open>(newZ, newX)\<close>.\<close>

definition rotate_rectangle :: "Platform \<Rightarrow> World \<Rightarrow> f32 \<Rightarrow> f32 \<Rightarrow> f32 \<times> f32" where
  "rotate_rectangle P W oldZ oldX =
     (let sinYaw = sins P (oFaceAngleYaw W);
          cosYaw = coss P (oFaceAngleYaw W)
      in (fsub P (fmul P oldZ cosYaw) (fmul P oldX sinYaw),
          fadd P (fmul P oldZ sinYaw) (fmul P oldX cosYaw)))"

definition create_shadow_rectangle ::
  "Platform \<Rightarrow> World \<Rightarrow> globals \<Rightarrow> f32 \<Rightarrow> f32 \<Rightarrow> f32 \<Rightarrow> u8 \<Rightarrow> ub + Gfx list option" where
  "create_shadow_rectangle P W g halfWidthArg halfLengthArg relY solidityArg =
     (if \<not> alloc_verts W \<or> \<not> alloc_displayList W then Inr None
      else
        let (frontLeftZ, frontLeftX) = rotate_rectangle P W (- halfLengthArg) (- halfWidthArg);
            (frontRightZ, frontRightX) = rotate_rectangle P W (- halfLengthArg) halfWidthArg;
            (backLeftZ, backLeftX) = rotate_rectangle P W halfLengthArg (- halfWidthArg);
            (backRightZ, backRightX) = rotate_rectangle P W halfLengthArg halfWidthArg
        in case make_shadow_vertex_at_xyz P g (replicate 4 None) 0 frontLeftX relY frontLeftZ
                  solidityArg of
             Inl e \<Rightarrow> Inl e
           | Inr v0 \<Rightarrow>
          (case make_shadow_vertex_at_xyz P g v0 1 frontRightX relY frontRightZ solidityArg of
             Inl e \<Rightarrow> Inl e
           | Inr v1 \<Rightarrow>
          (case make_shadow_vertex_at_xyz P g v1 2 backLeftX relY backLeftZ solidityArg of
             Inl e \<Rightarrow> Inl e
           | Inr v2 \<Rightarrow>
          (case make_shadow_vertex_at_xyz P g v2 3 backRightX relY backRightZ solidityArg of
             Inl e \<Rightarrow> Inl e
           | Inr v3 \<Rightarrow> Inr (Some (add_shadow_to_display_list v3 SHADOW_SHAPE_SQUARE))))))"

text \<open>
  Returns the value returned (\<open>True\<close> where no shadow is drawn), \<^verbatim>\<open>*shadowHeight\<close>,
  \<^verbatim>\<open>*solidity\<close> and the globals.
\<close>

definition get_shadow_height_solidity ::
  "Platform \<Rightarrow> World \<Rightarrow> f32 \<Rightarrow> f32 \<Rightarrow> f32 \<Rightarrow> u8 \<Rightarrow> globals \<Rightarrow> bool \<times> f32 \<times> u8 \<times> globals" where
  "get_shadow_height_solidity P W xPos yPos zPos solidityArg g =
     (let shadowHeight = floorHeight (gCurrShadow g) in
      if shadowHeight < FLOOR_LOWER_LIMIT_MISC P then (True, shadowHeight, solidityArg, g)
      else
        let waterLevel = find_water_level W xPos zPos in
        if waterLevel < FLOOR_LOWER_LIMIT_MISC P then (False, shadowHeight, solidityArg, g)
        else if yPos \<ge> waterLevel \<and> waterLevel \<ge> shadowHeight
        then (False, waterLevel, 200,
              g\<lparr>gShadowFlags := gShadowFlags g \<union> {SHADOW_FLAG_WATER_BOX}\<rparr>)
        else (False, shadowHeight, solidityArg, g))"

definition create_shadow_square ::
  "Platform \<Rightarrow> World \<Rightarrow> f32 \<Rightarrow> f32 \<Rightarrow> f32 \<Rightarrow> s16 \<Rightarrow> u8 \<Rightarrow> s8 \<Rightarrow> globals
     \<Rightarrow> ub + (Gfx list option \<times> globals)" where
  "create_shadow_square P W xPos yPos zPos shadowScaleArg solidityArg shadowType g =
     (let (ret, shadowHeight, solidity1, g1) =
            get_shadow_height_solidity P W xPos yPos zPos solidityArg g
      in if ret then Inr (None, g1)
         else
           let distFromShadow = fsub P yPos shadowHeight;
               rectangle = (\<lambda>shadowRadius.
                 map_sum id (\<lambda>dl. (dl, g1))
                   (create_shadow_rectangle P W g1 shadowRadius shadowRadius (- distFromShadow)
                      solidity1))
           in if sint shadowType = SHADOW_SQUARE_PERMANENT P
              then rectangle (of_int (drop_bit 1 (sint shadowScaleArg)))
              else if sint shadowType = SHADOW_SQUARE_SCALABLE P
              then rectangle
                     (fmul P
                        (scale_shadow_with_distance P (of_int (sint shadowScaleArg)) distFromShadow)
                        (1 / 2))
              else if sint shadowType = SHADOW_SQUARE_TOGGLABLE P
              then rectangle (if distFromShadow \<ge> 600 then 0
                              else of_int (drop_bit 1 (sint shadowScaleArg)))
              else Inr (None, g1))"

text \<open>
  \<^verbatim>\<open>idx\<close> is an \<^verbatim>\<open>s8\<close>: the difference is narrowed to 8 bits. The code reads
  \<^verbatim>\<open>rectangles[idx]\<close> without a check; a read outside the two entries is undefined.
\<close>

definition hardcoded_idx :: "Platform \<Rightarrow> s8 \<Rightarrow> s8" where
  "hardcoded_idx P shadowType =
     word_of_int (sint shadowType - SHADOW_RECTANGLE_HARDCODED_OFFSET P)"

definition create_shadow_hardcoded_rectangle ::
  "Platform \<Rightarrow> World \<Rightarrow> f32 \<Rightarrow> f32 \<Rightarrow> f32 \<Rightarrow> s16 \<Rightarrow> u8 \<Rightarrow> s8 \<Rightarrow> globals
     \<Rightarrow> ub + (Gfx list option \<times> globals)" where
  "create_shadow_hardcoded_rectangle P W xPos yPos zPos shadowScaleArg solidityArg shadowType g =
     (let idx = hardcoded_idx P shadowType;
          (ret, shadowHeight, solidity1, g1) =
            get_shadow_height_solidity P W xPos yPos zPos solidityArg g
      in if ret then Inr (None, g1)
         else
           let distFromShadow = fsub P yPos shadowHeight
           in if 0 \<le> sint idx \<and> sint idx < int (length rectangles)
              then
                let r = rectangles ! nat (sint idx);
                    (halfWidth1, halfLength1) =
                      (if scaleWithDistance r
                       then (scale_shadow_with_distance P (halfWidth r) distFromShadow,
                             scale_shadow_with_distance P (halfLength r) distFromShadow)
                       else (halfWidth r, halfLength r))
                in map_sum id (\<lambda>dl. (dl, g1))
                     (create_shadow_rectangle P W g1 halfWidth1 halfLength1 (- distFromShadow)
                        solidity1)
              else Inl OutOfBounds)"

section \<open>The entry point\<close>

text \<open>
  \<^verbatim>\<open>create_shadow_below_xyz\<close>, lines 636 to 648: the floor of Mario, of the object, or a
  new one. The first component is \<open>False\<close> where the code returns \<^verbatim>\<open>NULL\<close> for want of
  a floor.
\<close>

definition resolve_floor :: "World \<Rightarrow> f32 \<Rightarrow> f32 \<Rightarrow> f32 \<Rightarrow> globals \<Rightarrow> bool \<times> globals" where
  "resolve_floor W xPos yPos zPos g =
     (let s = gCurrShadow g in
      if curNodeIsMario W
      then (True, g\<lparr>gCurrShadow := s\<lparr>floor_surface := marioFloor W,
                                     floorHeight := marioFloorHeight W\<rparr>\<rparr>)
      else if \<not> curNodeIsMirrorMario W \<and> oFloor W \<noteq> None
      then (True, g\<lparr>gCurrShadow := s\<lparr>floor_surface := oFloor W, floorHeight := oFloorHeight W\<rparr>\<rparr>)
      else
        let (h, fl) = find_floor W xPos yPos zPos;
            g1 = g\<lparr>gCollisionFlags := gCollisionFlags g \<union> {COLLISION_FLAG_RETURN_FIRST},
                   gCurrShadow := s\<lparr>floorHeight := h, floor_surface := fl\<rparr>\<rparr>
        in (fl \<noteq> None, g1))"

definition create_shadow_below_xyz ::
  "Platform \<Rightarrow> World \<Rightarrow> f32 \<Rightarrow> f32 \<Rightarrow> f32 \<Rightarrow> s16 \<Rightarrow> u8 \<Rightarrow> s8 \<Rightarrow> globals
     \<Rightarrow> ub + (Gfx list option \<times> globals)" where
  "create_shadow_below_xyz P W xPos yPos zPos shadowScaleArg shadowSolidity shadowType g =
     (let (found, g1) = resolve_floor W xPos yPos zPos g in
      if \<not> found then Inr (None, g1)
      else
        case floor_surface (gCurrShadow g1) of
          None \<Rightarrow> Inl NullDeref
        | Some fl \<Rightarrow>
            let g2 = g1\<lparr>gShadowFlags :=
                          (if surface_type fl = SURFACE_ICE then {SHADOW_FLAG_ICE_CARPET} else {})\<rparr>
            in if sint shadowType = SHADOW_CIRCLE_PLAYER P
               then create_shadow_player P W xPos yPos zPos shadowScaleArg shadowSolidity g2
               else if sint shadowType = SHADOW_CIRCLE P
               then create_shadow_circle P W xPos yPos zPos shadowScaleArg shadowSolidity g2
               else if sint shadowType = SHADOW_SQUARE_PERMANENT P
                     \<or> sint shadowType = SHADOW_SQUARE_SCALABLE P
                     \<or> sint shadowType = SHADOW_SQUARE_TOGGLABLE P
               then create_shadow_square P W xPos yPos zPos shadowScaleArg shadowSolidity
                      shadowType g2
               else create_shadow_hardcoded_rectangle P W xPos yPos zPos shadowScaleArg
                      shadowSolidity shadowType g2)"

section \<open>States that a build cannot tell apart\<close>



section \<open>A platform and a world for the examples\<close>

text \<open>
  The examples run on \<open>platform0\<close>: arithmetic without rounding error, conversions that
  truncate and keep the low bits (what the N64's \<^verbatim>\<open>trunc.w.s\<close> followed by a narrowing
  store does), \<^verbatim>\<open>roundf\<close> rounding halves away from zero, the sine and cosine of the angle
  0 and an \<^verbatim>\<open>atan2s\<close> that returns it, the lower limit \<open>-10000\<close>, and one choice of
  distinct values for \<^verbatim>\<open>enum ShadowType\<close>. In \<open>world0\<close> a flat floor lies at height 0
  under every point, there is no water, and both buffers can be allocated.
\<close>

definition platform0 :: Platform where
  "platform0 =
     \<lparr>f32_round = (\<lambda>x. x),
      cvt_u8 = (\<lambda>v. case v of None \<Rightarrow> 255 | Some x \<Rightarrow> word_of_int (c_trunc x)),
      cvt_s16 = (\<lambda>x. word_of_int (c_trunc x)),
      cvt_s32 = c_trunc,
      sins = (\<lambda>a. 0),
      coss = (\<lambda>a. 1),
      atan2s = (\<lambda>y x. 0),
      sqrtf = sqrt,
      roundf = (\<lambda>x. if 0 \<le> x then of_int \<lfloor>x + 1 / 2\<rfloor> else of_int \<lceil>x - 1 / 2\<rceil>),
      FLT_IS_NONZERO = (\<lambda>x. \<bar>x\<bar> > 1 / 8388608),
      FLOOR_LOWER_LIMIT_MISC = - 10000,
      HD_SHADOWS = False,
      SHADOW_CIRCLE_PLAYER = 99,
      SHADOW_CIRCLE = 1,
      SHADOW_SQUARE_PERMANENT = 10,
      SHADOW_SQUARE_SCALABLE = 11,
      SHADOW_SQUARE_TOGGLABLE = 12,
      SHADOW_RECTANGLE_HARDCODED_OFFSET = 50\<rparr>"

definition flat_floor :: Surface where
  "flat_floor = \<lparr>surface_type = SURFACE_OTHER 0, normal = (0, 1, 0)\<rparr>"

definition world0 :: World where
  "world0 =
     \<lparr>find_floor = (\<lambda>x y z. (0, Some flat_floor)),
      find_water_level = (\<lambda>x z. - 11000),
      find_water_level_and_floor = (\<lambda>x z. (- 11000, None)),
      get_surface_height_at_location = (\<lambda>x z fl. 0),
      alloc_verts = True,
      alloc_displayList = True,
      gCurrLevelNum = LEVEL_OTHER 0,
      gCurrAreaIndex = 1,
      gFlyingCarpetState = FLYING_CARPET_OTHER 0,
      marioAnimID = MARIO_ANIM_OTHER 0,
      marioAnimFrame = 0,
      marioFloor = Some flat_floor,
      marioFloorHeight = 0,
      curNodeIsMario = False,
      curNodeIsMirrorMario = False,
      oFloor = None,
      oFloorHeight = 0,
      oFaceAngleYaw = 0\<rparr>"

definition globals0 :: globals where
  "globals0 =
     \<lparr>gCurrShadow =
        \<lparr>parentPos = (0, 0, 0), floorHeight = 0, shadowScale = 0, floor_surface = None,
         floorPitch = 0, floorYaw = 0, solidity = 77\<rparr>,
      gShadowFlags = {},
      gCollisionFlags = {}\<rparr>"





definition lava_floor :: Surface where
  "lava_floor = \<lparr>surface_type = SURFACE_BURNING, normal = (0, 1, 0)\<rparr>"

definition world_lava :: World where
  "world_lava =
     world0\<lparr>gCurrLevelNum := LEVEL_LLL, curNodeIsMario := True, marioFloor := Some lava_floor\<rparr>"

text \<open>The globals with the flat floor in the workspace.\<close>

definition globals_flat :: globals where
  "globals_flat = globals0\<lparr>gCurrShadow := (gCurrShadow globals0)\<lparr>floor_surface := Some flat_floor\<rparr>\<rparr>"

text \<open>The globals with the lava floor in the workspace.\<close>

definition globals_lava :: globals where
  "globals_lava = globals0\<lparr>gCurrShadow := (gCurrShadow globals0)\<lparr>floor_surface := Some lava_floor\<rparr>\<rparr>"



section \<open>Distance attenuation: the curves\<close>

subsection \<open>Rounding and truncation\<close>










subsection \<open>Scaling\<close>










subsection \<open>Dimming\<close>










section \<open>Animation: the two easing functions\<close>






subsection \<open>The rising ramp\<close>











subsection \<open>The falling ramp\<close>








section \<open>Vertices: the corner of a vertex index\<close>

lemma get_vertex_coords_values:
  "get_vertex_coords 0 = (- 1, - 1)" "get_vertex_coords 1 = (1, - 1)"
  "get_vertex_coords 2 = (- 1, 1)" "get_vertex_coords 3 = (1, 1)"
  by (simp_all add: get_vertex_coords_def Let_def)

lemma get_texture_coords_values:
  "get_texture_coords P 0 = (if HD_SHADOWS P then (- 63, - 63) else (- 15, - 15))"
  "get_texture_coords P 1 = (if HD_SHADOWS P then (64, - 63) else (16, - 15))"
  "get_texture_coords P 2 = (if HD_SHADOWS P then (- 63, 64) else (- 15, 16))"
  "get_texture_coords P 3 = (if HD_SHADOWS P then (64, 64) else (16, 16))"
  by (simp_all add: get_texture_coords_def)

text \<open>
  Claim C7. \<^verbatim>\<open>get_vertex_coords\<close> maps the vertex indices 0, 1, 2, 3 one-to-one onto the
  corners \<open>(-1,-1)\<close>, \<open>(1,-1)\<close>, \<open>(-1,1)\<close>, \<open>(1,1)\<close>, in this order, and the texture
  coordinates that \<^verbatim>\<open>get_texture_coords\<close> gives an index lie in the same corner: their
  signs are the coordinates of \<^verbatim>\<open>get_vertex_coords\<close>, with and without \<^verbatim>\<open>HD_SHADOWS\<close>.
\<close>

theorem vertex_index_corner_bijection:
  "bij_betw get_vertex_coords {0, 1, 2, 3} {(- 1, - 1), (1, - 1), (- 1, 1), (1, 1)}
   \<and> get_vertex_coords 0 = (- 1, - 1) \<and> get_vertex_coords 1 = (1, - 1)
   \<and> get_vertex_coords 2 = (- 1, 1) \<and> get_vertex_coords 3 = (1, 1)
   \<and> (\<forall>i \<in> {0, 1, 2, 3}.
         (sgn (fst (get_texture_coords P i)), sgn (snd (get_texture_coords P i)))
         = get_vertex_coords i)"
proof -
  have "inj_on get_vertex_coords {0, 1, 2, 3}"
    by (simp add: inj_on_def get_vertex_coords_values)
  moreover have "get_vertex_coords ` {0, 1, 2, 3} = {(- 1, - 1), (1, - 1), (- 1, 1), (1, 1)}"
    by (simp add: get_vertex_coords_values)
  ultimately have "bij_betw get_vertex_coords {0, 1, 2, 3} {(- 1, - 1), (1, - 1), (- 1, 1), (1, 1)}"
    by (simp only: bij_betw_def)
  then show ?thesis
    by (simp add: get_vertex_coords_values get_texture_coords_values)
qed

theorem vertex_index_corner_bijection_witness:
  "get_texture_coords platform0 2 = (- 15, 16) \<and> get_vertex_coords 2 = (- 1, 1)
   \<and> (sgn (fst (get_texture_coords platform0 2)), sgn (snd (get_texture_coords platform0 2)))
     = get_vertex_coords 2"
proof -
  have hd: "HD_SHADOWS platform0 = False" by (simp add: platform0_def)
  have "\<forall>i \<in> {0, 1, 2, 3}.
         (sgn (fst (get_texture_coords platform0 i)), sgn (snd (get_texture_coords platform0 i)))
         = get_vertex_coords i"
    using vertex_index_corner_bijection [of platform0] by (elim conjE)
  then have "(sgn (fst (get_texture_coords platform0 2)), sgn (snd (get_texture_coords platform0 2)))
     = get_vertex_coords 2"
    by (rule bspec) simp
  then show ?thesis
    by (simp add: get_texture_coords_values(3) get_vertex_coords_values(3) hd)
qed

section \<open>The resolve step\<close>

lemma get_water_level_below_shadow_workspace:
  "gCurrShadow (snd (snd (get_water_level_below_shadow P W g))) = gCurrShadow g"
  "gCollisionFlags (snd (snd (get_water_level_below_shadow P W g))) = gCollisionFlags g"
  by (simp_all add: get_water_level_below_shadow_def Let_def split: prod.splits)

lemma get_water_level_below_shadow_flags:
  assumes "parentPos (gCurrShadow g) = (xPos, yPos, zPos)"
  shows "gShadowFlags (snd (snd (get_water_level_below_shadow P W g)))
        = (if water_box_condition P W xPos yPos zPos (floorHeight (gCurrShadow g))
           then gShadowFlags g \<union> {SHADOW_FLAG_WATER_BOX} else gShadowFlags g)"
  using assms
  by (auto simp: get_water_level_below_shadow_def water_box_condition_def Let_def split: prod.splits)

lemma get_water_level_below_shadow_level:
  assumes "parentPos (gCurrShadow g) = (xPos, yPos, zPos)"
    and "find_water_level_and_floor W xPos zPos = (waterLevel, waterFloor)"
  shows "fst (snd (get_water_level_below_shadow P W g)) = waterFloor"
    and "FLOOR_LOWER_LIMIT_MISC P \<le> waterLevel \<Longrightarrow>
         fst (get_water_level_below_shadow P W g) = waterLevel"
  using assms
  by (auto simp: get_water_level_below_shadow_def Let_def split: prod.splits)

text \<open>The resolve step where the water-box flag is set after the water query.\<close>

lemma init_shadow_resolve_water_box:
  assumes fl: "floor_surface (gCurrShadow g) = Some fl"
    and wl: "find_water_level_and_floor W xPos zPos = (waterLevel, waterFloor)"
    and box: "FLOOR_LOWER_LIMIT_MISC P \<le> waterLevel" "waterLevel \<le> yPos"
      "floorHeight (gCurrShadow g) \<le> waterLevel"
  shows "init_shadow_resolve P W xPos yPos zPos g =
    (case waterFloor of
       Some waterSurface \<Rightarrow>
         Inr (Some (normal fl),
              g\<lparr>gCurrShadow := (gCurrShadow g)\<lparr>parentPos := (xPos, yPos, zPos),
                    floorHeight := waterLevel, floor_surface := Some waterSurface,
                    solidity := 200\<rparr>,
                gShadowFlags := (gShadowFlags g - {SHADOW_FLAG_WATER_BOX})
                                  \<union> {SHADOW_FLAG_WATER_SURFACE}\<rparr>)
     | None \<Rightarrow>
         Inr (Some (0, 1, 0),
              g\<lparr>gCurrShadow := (gCurrShadow g)\<lparr>parentPos := (xPos, yPos, zPos),
                    floorHeight := waterLevel\<rparr>,
                gShadowFlags := (gShadowFlags g \<union> {SHADOW_FLAG_WATER_BOX})
                                  - {SHADOW_FLAG_WATER_SURFACE}\<rparr>))"
  using assms
  by (auto simp: init_shadow_resolve_def get_water_level_below_shadow_def Let_def
      split: option.splits)








section \<open>No shadow below the lower limit\<close>


lemma carpet_flags_result:
  assumes "floor_surface (gCurrShadow g) = Some fl"
  shows "\<exists>g1. carpet_flags W g = Inr g1 \<and> gCurrShadow g1 = gCurrShadow g
           \<and> gCollisionFlags g1 = gCollisionFlags g
           \<and> gShadowFlags g \<subseteq> gShadowFlags g1
           \<and> gShadowFlags g1 \<subseteq> gShadowFlags g \<union> {SHADOW_FLAG_ICE_CARPET, SHADOW_FLAG_RAISED}"
  using assms
  by (auto simp: carpet_flags_def split: FlyingCarpetState.splits)

lemma linearly_interpolate_solidity_frame:
  "\<exists>v. linearly_interpolate_solidity_positive P F c s e g = set_solidity g v"
  "\<exists>v. linearly_interpolate_solidity_negative P F c s e g = set_solidity g v"
  by (auto simp: linearly_interpolate_solidity_positive_def
      linearly_interpolate_solidity_negative_def)

lemma correct_shadow_solidity_for_animations_frame:
  "\<exists>code v. correct_shadow_solidity_for_animations P W sol g = (code, set_solidity g v)"
proof -
  have same: "set_solidity g (solidity (gCurrShadow g)) = g"
    by (simp add: set_solidity_def)
  show ?thesis
    using linearly_interpolate_solidity_frame [of P sol "marioAnimFrame W" _ _ g] same
    by (cases "marioAnimID W")
      (auto simp: correct_shadow_solidity_for_animations_def Let_def, metis+)
qed

lemma set_solidity_fields:
  "floor_surface (gCurrShadow (set_solidity g v)) = floor_surface (gCurrShadow g)"
  "floorHeight (gCurrShadow (set_solidity g v)) = floorHeight (gCurrShadow g)"
  "gShadowFlags (set_solidity g v) = gShadowFlags g"
  "gCollisionFlags (set_solidity g v) = gCollisionFlags g"
  by (simp_all add: set_solidity_def)









section \<open>The hardcoded rectangles\<close>

lemma get_shadow_height_solidity_above_limit:
  assumes "FLOOR_LOWER_LIMIT_MISC P \<le> floorHeight (gCurrShadow g)"
  shows "fst (get_shadow_height_solidity P W xPos yPos zPos sol g) = False"
  using assms by (simp add: get_shadow_height_solidity_def Let_def)

lemma create_shadow_hardcoded_rectangle_out_of_bounds:
  assumes "FLOOR_LOWER_LIMIT_MISC P \<le> floorHeight (gCurrShadow g)"
    and "\<not> (0 \<le> sint (hardcoded_idx P ty) \<and> sint (hardcoded_idx P ty) < int (length rectangles))"
  shows "create_shadow_hardcoded_rectangle P W xPos yPos zPos sc sol ty g = Inl OutOfBounds"
  using assms get_shadow_height_solidity_above_limit [OF assms(1), of W xPos yPos zPos sol]
  by (auto simp: create_shadow_hardcoded_rectangle_def Let_def split: prod.splits)

text \<open>An \<^verbatim>\<open>s8\<close> outside five given values and two given words.\<close>

lemma s8_outside:
  fixes a b :: "8 word"
  shows "\<exists>t :: 8 word. sint t \<notin> {p, c, q, r, s} \<and> t \<noteq> a \<and> t \<noteq> b"
proof -
  let ?A = "{p, c, q, r, s} :: int set"
  let ?B = "(sint -` ?A) \<union> {a, b} :: 8 word set"
  have inj: "inj (sint :: 8 word \<Rightarrow> int)" by simp
  have "card (sint -` ?A \<inter> (UNIV :: 8 word set)) \<le> card ?A"
    by (rule card_vimage_inj_on_le [OF inj]) simp
  moreover have "card ?A \<le> 5" by (simp add: card_insert_if)
  ultimately have c1: "card (sint -` ?A :: 8 word set) \<le> 5" by simp
  have "card ?B \<le> card (sint -` ?A :: 8 word set) + card {a, b}" by (rule card_Un_le)
  moreover have "card {a, b} \<le> 2" by (simp add: card_insert_if)
  ultimately have "card ?B \<le> 7" using c1 by linarith
  moreover have "card (UNIV :: 8 word set) = 256" by (simp add: card_word)
  ultimately have "?B \<noteq> UNIV" by auto
  then obtain t where "t \<notin> ?B" by blast
  then show ?thesis by (intro exI [of _ t]) simp
qed

lemma hardcoded_idx_in_range:
  assumes "0 \<le> sint (hardcoded_idx P t)" "sint (hardcoded_idx P t) < int (length rectangles)"
  shows "t = word_of_int (SHADOW_RECTANGLE_HARDCODED_OFFSET P)
       \<or> t = word_of_int (SHADOW_RECTANGLE_HARDCODED_OFFSET P + 1)"
proof -
  let ?a = "word_of_int (SHADOW_RECTANGLE_HARDCODED_OFFSET P) :: 8 word"
  have idx: "hardcoded_idx P t = t - ?a"
    by (simp add: hardcoded_idx_def)
  have "sint (t - ?a) = 0 \<or> sint (t - ?a) = 1"
    using assms by (auto simp: idx rectangles_def)
  then have "sint (t - ?a) = sint (0 :: 8 word) \<or> sint (t - ?a) = sint (1 :: 8 word)"
    by simp
  then have "t - ?a = 0 \<or> t - ?a = 1"
    by (simp only: word_eq_iff_signed [where ?'a = int, symmetric])
  moreover have "t = (t - ?a) + ?a" by simp
  ultimately have "t = 0 + ?a \<or> t = 1 + ?a" by metis
  then show ?thesis by (simp add: add.commute)
qed

text \<open>
  Claim C9. Whatever the values of \<^verbatim>\<open>enum ShadowType\<close>, there is a shadow type that is
  none of the player circle, the circle and the three squares, so that
  \<^verbatim>\<open>create_shadow_below_xyz\<close> routes it to \<^verbatim>\<open>create_shadow_hardcoded_rectangle\<close>, and for
  which the index \<^verbatim>\<open>shadowType - SHADOW_RECTANGLE_HARDCODED_OFFSET\<close> is outside the two
  entries of \<^verbatim>\<open>rectangles\<close>; and in every build with it that resolves a floor at or above
  the lower limit the table is read at that index: the run ends in the out-of-bounds read.
\<close>

theorem hardcoded_rectangle_index_unguarded:
  "\<exists>shadowType :: 8 word.
     sint shadowType \<noteq> SHADOW_CIRCLE_PLAYER P \<and> sint shadowType \<noteq> SHADOW_CIRCLE P
     \<and> sint shadowType \<noteq> SHADOW_SQUARE_PERMANENT P \<and> sint shadowType \<noteq> SHADOW_SQUARE_SCALABLE P
     \<and> sint shadowType \<noteq> SHADOW_SQUARE_TOGGLABLE P
     \<and> \<not> (0 \<le> sint (hardcoded_idx P shadowType)
          \<and> sint (hardcoded_idx P shadowType) < int (length rectangles))
     \<and> (\<forall>W xPos yPos zPos sc sol g g1 fl.
           resolve_floor W xPos yPos zPos g = (True, g1)
           \<and> floor_surface (gCurrShadow g1) = Some fl
           \<and> FLOOR_LOWER_LIMIT_MISC P \<le> floorHeight (gCurrShadow g1)
           \<longrightarrow> create_shadow_below_xyz P W xPos yPos zPos sc sol shadowType g = Inl OutOfBounds)"
proof -
  obtain t :: "8 word" where t:
    "sint t \<notin> {SHADOW_CIRCLE_PLAYER P, SHADOW_CIRCLE P, SHADOW_SQUARE_PERMANENT P,
        SHADOW_SQUARE_SCALABLE P, SHADOW_SQUARE_TOGGLABLE P}"
    "t \<noteq> word_of_int (SHADOW_RECTANGLE_HARDCODED_OFFSET P)"
    "t \<noteq> word_of_int (SHADOW_RECTANGLE_HARDCODED_OFFSET P + 1)"
    using s8_outside by blast
  have idx: "\<not> (0 \<le> sint (hardcoded_idx P t) \<and> sint (hardcoded_idx P t) < int (length rectangles))"
    using hardcoded_idx_in_range [of P t] t(2,3) by blast
  have run: "create_shadow_below_xyz P W xPos yPos zPos sc sol t g = Inl OutOfBounds"
    if "resolve_floor W xPos yPos zPos g = (True, g1)
        \<and> floor_surface (gCurrShadow g1) = Some fl
        \<and> FLOOR_LOWER_LIMIT_MISC P \<le> floorHeight (gCurrShadow g1)"
    for W xPos yPos zPos sc sol g g1 fl
  proof -
    define g2 where "g2 = g1\<lparr>gShadowFlags :=
        (if surface_type fl = SURFACE_ICE then {SHADOW_FLAG_ICE_CARPET} else {})\<rparr>"
    have h: "FLOOR_LOWER_LIMIT_MISC P \<le> floorHeight (gCurrShadow g2)"
      using that by (simp add: g2_def)
    have "create_shadow_below_xyz P W xPos yPos zPos sc sol t g
        = create_shadow_hardcoded_rectangle P W xPos yPos zPos sc sol t g2"
      using that t(1) by (simp add: create_shadow_below_xyz_def g2_def Let_def)
    then show ?thesis
      using create_shadow_hardcoded_rectangle_out_of_bounds [OF h idx] by simp
  qed
  have ne: "sint t \<noteq> SHADOW_CIRCLE_PLAYER P \<and> sint t \<noteq> SHADOW_CIRCLE P
     \<and> sint t \<noteq> SHADOW_SQUARE_PERMANENT P \<and> sint t \<noteq> SHADOW_SQUARE_SCALABLE P
     \<and> sint t \<noteq> SHADOW_SQUARE_TOGGLABLE P"
    using t(1) by simp
  have all: "\<forall>W xPos yPos zPos sc sol g g1 fl.
           resolve_floor W xPos yPos zPos g = (True, g1)
           \<and> floor_surface (gCurrShadow g1) = Some fl
           \<and> FLOOR_LOWER_LIMIT_MISC P \<le> floorHeight (gCurrShadow g1)
           \<longrightarrow> create_shadow_below_xyz P W xPos yPos zPos sc sol t g = Inl OutOfBounds"
    using run by blast
  show ?thesis
    by (rule exI [of _ t]) (use ne idx all in blast)
qed

theorem hardcoded_rectangle_index_unguarded_witness:
  "(\<exists>shadowType :: 8 word.
      \<not> (0 \<le> sint (hardcoded_idx platform0 shadowType)
         \<and> sint (hardcoded_idx platform0 shadowType) < 2)
      \<and> create_shadow_below_xyz platform0 world0 0 0 0 100 255 shadowType globals0
        = Inl OutOfBounds)
   \<and> sint (hardcoded_idx platform0 52) = 2
   \<and> create_shadow_below_xyz platform0 world0 0 0 0 100 255 52 globals0 = Inl OutOfBounds"
proof -
  define g1 where "g1 = snd (resolve_floor world0 0 0 0 globals0)"
  have r: "resolve_floor world0 0 0 0 globals0 = (True, g1)"
    by (simp add: g1_def resolve_floor_def world0_def Let_def)
  have fl1: "floor_surface (gCurrShadow g1) = Some flat_floor"
    and h1: "floorHeight (gCurrShadow g1) = 0"
    by (simp_all add: g1_def resolve_floor_def world0_def Let_def)
  have lim: "FLOOR_LOWER_LIMIT_MISC platform0 \<le> floorHeight (gCurrShadow g1)"
    by (simp add: h1 platform0_def)
  have len: "int (length rectangles) = 2" by (simp add: rectangles_def)
  have types: "SHADOW_CIRCLE_PLAYER platform0 = 99" "SHADOW_CIRCLE platform0 = 1"
    "SHADOW_SQUARE_PERMANENT platform0 = 10" "SHADOW_SQUARE_SCALABLE platform0 = 11"
    "SHADOW_SQUARE_TOGGLABLE platform0 = 12" "SHADOW_RECTANGLE_HARDCODED_OFFSET platform0 = 50"
    by (simp_all add: platform0_def)
  have i52: "sint (hardcoded_idx platform0 52) = 2"
    by (simp add: hardcoded_idx_def types)
  define g2 where "g2 = g1\<lparr>gShadowFlags :=
      (if surface_type flat_floor = SURFACE_ICE then {SHADOW_FLAG_ICE_CARPET} else {})\<rparr>"
  have h2: "FLOOR_LOWER_LIMIT_MISC platform0 \<le> floorHeight (gCurrShadow g2)"
    using lim by (simp add: g2_def)
  have "create_shadow_below_xyz platform0 world0 0 0 0 100 255 52 globals0
      = create_shadow_hardcoded_rectangle platform0 world0 0 0 0 100 255 52 g2"
    using r fl1 by (simp add: create_shadow_below_xyz_def g2_def Let_def types)
  then have run52: "create_shadow_below_xyz platform0 world0 0 0 0 100 255 52 globals0
      = Inl OutOfBounds"
    using create_shadow_hardcoded_rectangle_out_of_bounds [OF h2, of 52] i52 len by simp
  show ?thesis
    using hardcoded_rectangle_index_unguarded [of platform0] r fl1 lim i52 run52
    by (simp add: len) blast
qed

section \<open>The alpha of the vertices\<close>

lemma make_shadow_vertex_at_xyz_result:
  assumes "make_shadow_vertex_at_xyz P g verts i relX relY relZ a = Inr verts'"
  shows "0 \<le> i \<and> i < int (length verts) \<and> (\<exists>v. verts' = verts[nat i := Some v] \<and> vtx_a v = a)"
  using assms
  by (auto simp: make_shadow_vertex_at_xyz_def make_vertex_def Let_def
      split: prod.splits if_splits)

lemma make_shadow_vertex_at_xyz_total:
  assumes "0 \<le> i" "i < int (length verts)"
  shows "\<exists>v. make_shadow_vertex_at_xyz P g verts i relX relY relZ a = Inr (verts[nat i := Some v])
           \<and> vtx_a v = a"
  using assms
  by (auto simp: make_shadow_vertex_at_xyz_def make_vertex_def Let_def split: prod.splits)

text \<open>The alpha that \<^verbatim>\<open>make_shadow_vertex\<close> passes on.\<close>

lemma make_shadow_vertex_result:
  assumes "make_shadow_vertex P W g verts i = Inr verts'"
  shows "0 \<le> i \<and> i < int (length verts)
       \<and> (\<exists>v. verts' = verts[nat i := Some v]
              \<and> vtx_a v = (if SHADOW_FLAG_WATER_BOX \<in> gShadowFlags g then 200
                           else solidity (gCurrShadow g)))"
  using assms
  by (auto simp: make_shadow_vertex_def Let_def
      split: sum.splits prod.splits dest!: make_shadow_vertex_at_xyz_result)

lemma calculate_vertex_xyz_water_box:
  assumes "SHADOW_FLAG_WATER_BOX \<in> gShadowFlags g"
  shows "\<exists>x z. calculate_vertex_xyz P W g i = Inr (x, floorHeight (gCurrShadow g), z)"
  using assms by (simp add: calculate_vertex_xyz_def Let_def split: prod.splits)

lemma make_shadow_vertex_water_box:
  assumes flag: "SHADOW_FLAG_WATER_BOX \<in> gShadowFlags g" and i: "0 \<le> i" "i < int (length verts)"
  shows "\<exists>v. make_shadow_vertex P W g verts i = Inr (verts[nat i := Some v]) \<and> vtx_a v = 200"
proof -
  obtain x z where c: "calculate_vertex_xyz P W g i = Inr (x, floorHeight (gCurrShadow g), z)"
    using calculate_vertex_xyz_water_box [OF flag] by blast
  show ?thesis
    using make_shadow_vertex_at_xyz_total [OF i, of P g _ _ _ 200] flag
    by (simp add: make_shadow_vertex_def c Let_def split: prod.splits)
qed

lemma make_shadow_vertices_alpha:
  assumes "make_shadow_vertices P W g vs idxs = Inr vs'"
    and "\<forall>j < length vs. j \<in> S \<longrightarrow> (\<exists>v. vs ! j = Some v \<and> vtx_a v = a)"
    and "a = (if SHADOW_FLAG_WATER_BOX \<in> gShadowFlags g then 200 else solidity (gCurrShadow g))"
  shows "length vs' = length vs
       \<and> (\<forall>j < length vs. j \<in> S \<union> nat ` set idxs \<longrightarrow> (\<exists>v. vs' ! j = Some v \<and> vtx_a v = a))"
  using assms
proof (induction idxs arbitrary: vs S)
  case Nil
  then show ?case by simp
next
  case (Cons i rest)
  from Cons.prems(1) obtain vs1 where 1: "make_shadow_vertex P W g vs i = Inr vs1"
    and 2: "make_shadow_vertices P W g vs1 rest = Inr vs'"
    by (auto split: sum.splits)
  from make_shadow_vertex_result [OF 1] Cons.prems(3)
  obtain v where i: "0 \<le> i" "i < int (length vs)" and v: "vs1 = vs[nat i := Some v]" "vtx_a v = a"
    by auto
  have inv: "\<forall>j < length vs1. j \<in> insert (nat i) S \<longrightarrow> (\<exists>w. vs1 ! j = Some w \<and> vtx_a w = a)"
  proof (intro allI impI)
    fix j
    assume j: "j < length vs1" "j \<in> insert (nat i) S"
    show "\<exists>w. vs1 ! j = Some w \<and> vtx_a w = a"
    proof (cases "j = nat i")
      case True
      then show ?thesis using j(1) v by simp
    next
      case False
      then have "vs1 ! j = vs ! j" "j \<in> S" "j < length vs" using j v(1) by simp_all
      then show ?thesis using Cons.prems(2) by simp
    qed
  qed
  have "length vs' = length vs1
      \<and> (\<forall>j < length vs1. j \<in> insert (nat i) S \<union> nat ` set rest
            \<longrightarrow> (\<exists>w. vs' ! j = Some w \<and> vtx_a w = a))"
    by (rule Cons.IH [OF 2 inv Cons.prems(3)])
  then show ?case using v(1) by auto
qed

lemma circle_vertices_result:
  assumes "circle_vertices P W lava g = Inr (Some dl, g')"
  shows "(if lava then correct_lava_shadow_height W g = Inr g' else g' = g)
       \<and> (\<exists>verts. dl = [dl_shadow_circle, gSPVertex verts, dl_shadow_end, gSPEndDisplayList]
              \<and> length verts = 4
              \<and> (\<forall>j < 4. \<exists>v. verts ! j = Some v
                    \<and> vtx_a v = (if SHADOW_FLAG_WATER_BOX \<in> gShadowFlags g' then 200
                                 else solidity (gCurrShadow g'))))"
proof -
  define a where
    "a = (if SHADOW_FLAG_WATER_BOX \<in> gShadowFlags g' then 200 else solidity (gCurrShadow g'))"
  from assms obtain verts where
    g': "(if lava then correct_lava_shadow_height W g else Inr g) = Inr g'"
    and vs: "make_shadow_vertices P W g' (replicate 4 None) [0, 1, 2, 3] = Inr verts"
    and dl: "dl = add_shadow_to_display_list verts SHADOW_SHAPE_CIRCLE"
    by (auto simp: circle_vertices_def split: if_splits sum.splits)
  have none: "\<forall>j < length (replicate 4 (None :: Vtx option)). j \<in> {}
      \<longrightarrow> (\<exists>v. replicate 4 (None :: Vtx option) ! j = Some v \<and> vtx_a v = a)"
    by simp
  have all: "length verts = length (replicate 4 (None :: Vtx option))
      \<and> (\<forall>j < length (replicate 4 (None :: Vtx option)). j \<in> {} \<union> nat ` set [0, 1, 2, 3]
            \<longrightarrow> (\<exists>v. verts ! j = Some v \<and> vtx_a v = a))"
    by (rule make_shadow_vertices_alpha [OF vs none a_def])
  have mem: "j \<in> {} \<union> nat ` set [0, 1, 2, 3]" if "j < 4" for j :: nat
  proof -
    have "j = nat (int j)" "int j \<in> set [0, 1, 2, 3]" using that by auto
    then show ?thesis by blast
  qed
  have len: "length verts = 4" using all by simp
  have alpha: "\<forall>j < 4. \<exists>v. verts ! j = Some v \<and> vtx_a v = a"
  proof (intro allI impI)
    fix j :: nat
    assume "j < 4"
    then show "\<exists>v. verts ! j = Some v \<and> vtx_a v = a"
      using all mem [of j] by (simp; blast)
  qed
  have 1: "if lava then correct_lava_shadow_height W g = Inr g' else g' = g"
    using g' by (auto split: if_splits)
  have 2: "dl = [dl_shadow_circle, gSPVertex verts, dl_shadow_end, gSPEndDisplayList]"
    using dl by (simp add: add_shadow_to_display_list_def)
  show ?thesis
    using 1 2 len alpha unfolding a_def by blast
qed


lemma create_shadow_player_result:
  assumes "create_shadow_player P W xPos yPos zPos sc sol g = Inr (Some dl, g')"
  shows "\<exists>g1 code v ov g3.
           carpet_flags W g = Inr g1
         \<and> correct_shadow_solidity_for_animations P W sol g1 = (code, set_solidity g1 v)
         \<and> init_shadow P W xPos yPos zPos sc ov (set_solidity g1 v) = Inr (False, g3)
         \<and> (ov = 0 \<or> ov = sol)
         \<and> circle_vertices P W True g3 = Inr (Some dl, g')"
proof -
  from assms obtain g1 where g1: "carpet_flags W g = Inr g1"
    by (auto simp: create_shadow_player_def split: sum.splits)
  obtain code v where a: "correct_shadow_solidity_for_animations P W sol g1 = (code, set_solidity g1 v)"
    using correct_shadow_solidity_for_animations_frame by blast
  from assms have "\<exists>ov g3. init_shadow P W xPos yPos zPos sc ov (set_solidity g1 v) = Inr (False, g3)
         \<and> (ov = 0 \<or> ov = sol) \<and> circle_vertices P W True g3 = Inr (Some dl, g')"
    unfolding create_shadow_player_def
    by (cases code) (auto simp: g1 a split: sum.splits if_splits, blast+)
  then show ?thesis using g1 a by blast
qed

lemma correct_lava_shadow_height_flags:
  assumes "correct_lava_shadow_height W g = Inr g'"
  shows "gShadowFlags g \<subseteq> gShadowFlags g'"
    and "lava_correction_applies W g \<Longrightarrow> SHADOW_FLAG_WATER_BOX \<in> gShadowFlags g'"
    and "lava_correction_applies W g' = lava_correction_applies W g"
  using assms
  by (auto simp: correct_lava_shadow_height_def lava_correction_applies_def Let_def
      split: option.splits if_splits)

lemma init_shadow_finish_flags:
  "gShadowFlags (init_shadow_finish P yPos sc ov n g) = gShadowFlags g"
  by (simp add: init_shadow_finish_def Let_def split: prod.splits)

lemma init_shadow_floorless_water_box:
  assumes fl: "floor_surface (gCurrShadow g) = Some fl"
    and box: "water_box_condition P W xPos yPos zPos (floorHeight (gCurrShadow g))"
    and none: "snd (find_water_level_and_floor W xPos zPos) = None"
    and r: "init_shadow P W xPos yPos zPos sc ov g = Inr (b, g')"
  shows "SHADOW_FLAG_WATER_BOX \<in> gShadowFlags g'"
proof -
  obtain waterLevel where wl: "find_water_level_and_floor W xPos zPos = (waterLevel, None)"
    using none by (cases "find_water_level_and_floor W xPos zPos") simp
  have b: "FLOOR_LOWER_LIMIT_MISC P \<le> waterLevel" "waterLevel \<le> yPos"
    "floorHeight (gCurrShadow g) \<le> waterLevel"
    using box by (simp_all add: water_box_condition_def wl)
  show ?thesis
    using r init_shadow_resolve_water_box [OF fl wl b]
    by (auto simp: init_shadow_def init_shadow_finish_flags)
qed

text \<open>
  Claim C10. Whenever the water-box flag is set, \<^verbatim>\<open>make_shadow_vertex\<close> writes the vertex
  with alpha 200, whatever the solidity of the workspace. The lava correction sets the
  flag where it applies (a burning floor in Bowser in the Fire Sea below \<open>-3000\<close> or above
  \<open>3400\<close>, or in the first area of Lethal Lava Land). So in every display list that
  \<^verbatim>\<open>create_shadow_player\<close> returns with the flag set, and so over such lava and over a
  water box without a water floor, all four vertices have alpha 200, whatever solidity was
  requested.
\<close>

theorem water_box_vertex_alpha:
  "(SHADOW_FLAG_WATER_BOX \<in> gShadowFlags g \<and> 0 \<le> i \<and> i < int (length verts)
    \<longrightarrow> (\<exists>v. make_shadow_vertex P W g verts i = Inr (verts[nat i := Some v]) \<and> vtx_a v = 200))
   \<and> (correct_lava_shadow_height W g = Inr g1 \<and> lava_correction_applies W g
    \<longrightarrow> SHADOW_FLAG_WATER_BOX \<in> gShadowFlags g1)
   \<and> (create_shadow_player P W xPos yPos zPos sc sol g = Inr (Some dl, g')
      \<and> (SHADOW_FLAG_WATER_BOX \<in> gShadowFlags g'
         \<or> lava_correction_applies W g'
         \<or> floor_surface (gCurrShadow g) \<noteq> None
           \<and> water_box_condition P W xPos yPos zPos (floorHeight (gCurrShadow g))
           \<and> snd (find_water_level_and_floor W xPos zPos) = None)
    \<longrightarrow> (\<exists>vs. dl = [dl_shadow_circle, gSPVertex vs, dl_shadow_end, gSPEndDisplayList]
             \<and> length vs = 4 \<and> (\<forall>j < 4. \<exists>v. vs ! j = Some v \<and> vtx_a v = 200)))"
proof (intro conjI impI)
  assume "SHADOW_FLAG_WATER_BOX \<in> gShadowFlags g \<and> 0 \<le> i \<and> i < int (length verts)"
  then show "\<exists>v. make_shadow_vertex P W g verts i = Inr (verts[nat i := Some v]) \<and> vtx_a v = 200"
    using make_shadow_vertex_water_box [of g i verts P W] by simp
next
  assume "correct_lava_shadow_height W g = Inr g1 \<and> lava_correction_applies W g"
  then show "SHADOW_FLAG_WATER_BOX \<in> gShadowFlags g1"
    using correct_lava_shadow_height_flags(2) by blast
next
  assume a: "create_shadow_player P W xPos yPos zPos sc sol g = Inr (Some dl, g')
      \<and> (SHADOW_FLAG_WATER_BOX \<in> gShadowFlags g'
         \<or> lava_correction_applies W g'
         \<or> floor_surface (gCurrShadow g) \<noteq> None
           \<and> water_box_condition P W xPos yPos zPos (floorHeight (gCurrShadow g))
           \<and> snd (find_water_level_and_floor W xPos zPos) = None)"
  then obtain g1 code v ov g3 where
    c: "carpet_flags W g = Inr g1"
    and i: "init_shadow P W xPos yPos zPos sc ov (set_solidity g1 v) = Inr (False, g3)"
    and cv: "circle_vertices P W True g3 = Inr (Some dl, g')"
    using create_shadow_player_result [of P W xPos yPos zPos sc sol g dl g'] by blast
  note res = circle_vertices_result [OF cv]
  have lava: "correct_lava_shadow_height W g3 = Inr g'" using res by simp
  have flag: "SHADOW_FLAG_WATER_BOX \<in> gShadowFlags g'"
  proof -
    consider "SHADOW_FLAG_WATER_BOX \<in> gShadowFlags g'" | "lava_correction_applies W g'"
      | "floor_surface (gCurrShadow g) \<noteq> None
           \<and> water_box_condition P W xPos yPos zPos (floorHeight (gCurrShadow g))
           \<and> snd (find_water_level_and_floor W xPos zPos) = None"
      using a by blast
    then show ?thesis
    proof cases
      case 1
      then show ?thesis .
    next
      case 2
      then show ?thesis
        using correct_lava_shadow_height_flags(2,3) [OF lava] by simp
    next
      case 3
      then obtain fl where fl: "floor_surface (gCurrShadow g) = Some fl" by blast
      obtain k where k: "gCurrShadow k = gCurrShadow g" "carpet_flags W g = Inr k"
        using carpet_flags_result [OF fl, of W] by blast
      then have same: "gCurrShadow g1 = gCurrShadow g" using c by simp
      have fl2: "floor_surface (gCurrShadow (set_solidity g1 v)) = Some fl"
        and h2: "floorHeight (gCurrShadow (set_solidity g1 v)) = floorHeight (gCurrShadow g)"
        using fl same by (simp_all add: set_solidity_fields)
      have "SHADOW_FLAG_WATER_BOX \<in> gShadowFlags g3"
        using init_shadow_floorless_water_box [OF fl2 _ _ i] 3 by (simp add: h2)
      then show ?thesis
        using correct_lava_shadow_height_flags(1) [OF lava] by blast
    qed
  qed
  show "\<exists>vs. dl = [dl_shadow_circle, gSPVertex vs, dl_shadow_end, gSPEndDisplayList]
             \<and> length vs = 4 \<and> (\<forall>j < 4. \<exists>v. vs ! j = Some v \<and> vtx_a v = 200)"
    using res flag by simp
qed


subsection \<open>Mario over the lava of Lethal Lava Land\<close>

lemma platform0_sel:
  "f32_round platform0 = (\<lambda>x. x)" "sins platform0 = (\<lambda>a. 0)" "coss platform0 = (\<lambda>a. 1)"
  "atan2s platform0 = (\<lambda>y x. 0)"
  "roundf platform0 = (\<lambda>x. if 0 \<le> x then of_int \<lfloor>x + 1 / 2\<rfloor> else of_int \<lceil>x - 1 / 2\<rceil>)"
  "FLT_IS_NONZERO platform0 = (\<lambda>x. \<bar>x\<bar> > 1 / 8388608)"
  "FLOOR_LOWER_LIMIT_MISC platform0 = - 10000" "HD_SHADOWS platform0 = False"
  "SHADOW_CIRCLE_PLAYER platform0 = 99" "SHADOW_CIRCLE platform0 = 1"
  "SHADOW_SQUARE_PERMANENT platform0 = 10" "SHADOW_SQUARE_SCALABLE platform0 = 11"
  "SHADOW_SQUARE_TOGGLABLE platform0 = 12" "SHADOW_RECTANGLE_HARDCODED_OFFSET platform0 = 50"
  by (simp_all add: platform0_def)

lemma f32_ops_platform0:
  "fadd platform0 a b = a + b" "fsub platform0 a b = a - b" "fmul platform0 a b = a * b"
  "fdiv platform0 a b = a / b"
  by (simp_all add: fadd_def fsub_def fmul_def fdiv_def platform0_sel)

lemma world_lava_sel:
  "find_water_level_and_floor world_lava = (\<lambda>x z. (- 11000, None))"
  "get_surface_height_at_location world_lava = (\<lambda>x z fl. 0)"
  "alloc_verts world_lava = True" "alloc_displayList world_lava = True"
  "gCurrLevelNum world_lava = LEVEL_LLL" "gCurrAreaIndex world_lava = 1"
  "marioAnimID world_lava = MARIO_ANIM_OTHER 0"
  by (simp_all add: world_lava_def world0_def)

lemma lava_init:
  "init_shadow platform0 world_lava 0 0 0 100 255 globals_lava =
   Inr (False, globals_lava\<lparr>gCurrShadow := (gCurrShadow globals_lava)\<lparr>shadowScale := 100,
       solidity := 255\<rparr>\<rparr>)"
  by (simp add: init_shadow_def init_shadow_resolve_def get_water_level_below_shadow_def
      init_shadow_finish_def Let_def globals_lava_def globals0_def lava_floor_def
      platform0_sel world_lava_sel f32_ops_platform0 dim_shadow_with_distance_def
      scale_shadow_with_distance_def)

lemma lava_player_steps:
  "create_shadow_player platform0 world_lava 0 0 0 100 255 globals_lava
   = circle_vertices platform0 world_lava True
       (globals_lava\<lparr>gCurrShadow := (gCurrShadow globals_lava)\<lparr>shadowScale := 100,
          solidity := 255\<rparr>\<rparr>)"
  by (simp add: create_shadow_player_def carpet_flags_def
      correct_shadow_solidity_for_animations_def world_lava_sel lava_init)

lemma lava_player:
  "\<exists>dl g'. create_shadow_player platform0 world_lava 0 0 0 100 255 globals_lava = Inr (Some dl, g')
     \<and> lava_correction_applies world_lava g'"
  unfolding lava_player_steps
  by (simp add: circle_vertices_def correct_lava_shadow_height_def lava_correction_applies_def
      make_shadow_vertex_def calculate_vertex_xyz_def make_shadow_vertex_at_xyz_def
      make_vertex_def get_vertex_coords_def get_texture_coords_def f32_to_s16_def c_trunc_def
      Let_def globals_lava_def globals0_def lava_floor_def
      platform0_sel world_lava_sel f32_ops_platform0)

theorem water_box_vertex_alpha_witness:
  "(\<exists>v. make_shadow_vertex platform0 world0 (globals_flat\<lparr>gShadowFlags := {SHADOW_FLAG_WATER_BOX}\<rparr>)
           (replicate 4 None) 2
         = Inr ((replicate 4 None)[nat 2 := Some v]) \<and> vtx_a v = 200)
   \<and> (\<exists>vs g'. create_shadow_player platform0 world_lava 0 0 0 100 255 globals_lava
         = Inr (Some [dl_shadow_circle, gSPVertex vs, dl_shadow_end, gSPEndDisplayList], g')
       \<and> length vs = 4 \<and> (\<forall>j < 4. \<exists>v. vs ! j = Some v \<and> vtx_a v = 200))"
proof -
  obtain dl g' where run:
    "create_shadow_player platform0 world_lava 0 0 0 100 255 globals_lava = Inr (Some dl, g')"
    "lava_correction_applies world_lava g'"
    using lava_player by blast
  have flag: "SHADOW_FLAG_WATER_BOX \<in> gShadowFlags (globals_flat\<lparr>gShadowFlags := {SHADOW_FLAG_WATER_BOX}\<rparr>)"
    by simp
  have len: "(2 :: int) < int (length (replicate 4 (None :: Vtx option)))" by simp
  have 1: "\<exists>v. make_shadow_vertex platform0 world0
             (globals_flat\<lparr>gShadowFlags := {SHADOW_FLAG_WATER_BOX}\<rparr>) (replicate 4 None) 2
           = Inr ((replicate 4 None)[nat 2 := Some v]) \<and> vtx_a v = 200"
    using water_box_vertex_alpha
        [where g = "globals_flat\<lparr>gShadowFlags := {SHADOW_FLAG_WATER_BOX}\<rparr>" and i = 2
          and verts = "replicate 4 None" and P = platform0 and W = world0]
      flag len
    by simp
  have 2: "\<exists>vs. dl = [dl_shadow_circle, gSPVertex vs, dl_shadow_end, gSPEndDisplayList]
             \<and> length vs = 4 \<and> (\<forall>j < 4. \<exists>v. vs ! j = Some v \<and> vtx_a v = 200)"
    using water_box_vertex_alpha
        [where g = globals_lava and P = platform0 and W = world_lava and xPos = 0 and yPos = 0
          and zPos = 0 and sc = 100 and sol = 255 and dl = dl and g' = g']
      run
    by blast
  show ?thesis using 1 2 run(1) by blast
qed

section \<open>What a build leaves of the previous workspace\<close>

subsection \<open>The floor\<close>



subsection \<open>The squares and the hardcoded rectangles\<close>











subsection \<open>The circles\<close>











subsection \<open>The player\<close>







subsection \<open>The floor that a circle leaves\<close>










subsection \<open>The build\<close>






subsection \<open>Evaluation in the example world\<close>










end
